theory Spec2Isabelle
  imports Main "HOL-Library.Sublist" "HOL-Library.Signed_Division"
begin

section \<open>The ListenBrainz submission plugin (modules/misc/listenbrainz.c)\<close>

text \<open>
  The plugin has two threads of control. The player's callbacks (\<open>PlayerStateChanged\<close>,
  \<open>OnCurrentMediaChanged\<close>, \<open>OnTimerUpdate\<close>) fill the current listen and push it on
  the queue; the worker thread \<open>Run\<close> sends the queue to the server. Both work on one
  \<open>intf_sys_t\<close> under one mutex. The embedding passes that structure explicitly: every
  C function that mutates \<open>p_sys\<close> becomes a function from the old structure to the new
  one, and everything the code reads from outside (the clock, the media item's
  metadata, the TLS socket) is an argument.
\<close>

subsection \<open>Data\<close>

text \<open>
  A \<open>char *\<close> is \<open>None\<close> for \<open>NULL\<close> and \<open>Some s\<close> for a NUL-terminated string with
  the bytes \<open>s\<close>. \<open>int\<close>, \<open>time_t\<close> and \<open>vlc_tick_t\<close> are modelled by \<open>int\<close>; the two
  places where the C code converts between widths write the wrap-around out
  (\<open>to_int\<close>, \<open>to_uint64\<close>).
\<close>

type_synonym cstring = "string option"

record listen_t =
  psz_artist :: cstring
  psz_title :: cstring
  psz_album :: cstring
  psz_track_number :: cstring
  psz_musicbrainz_recording_id :: cstring
  i_length :: int
  date :: int

record vlc_url_t =
  psz_host :: cstring
  psz_path :: cstring

record intf_sys_t =
  queue :: "listen_t list"
  live :: bool
  p_submit_url :: vlc_url_t
  psz_user_token :: cstring
  p_current_song :: listen_t
  b_meta_read :: bool
  time_played :: int

text \<open>
  Modelled from the spec: the macro \<open>EMPTY_STR\<close> comes from vlc_common.h, which is not
  among the sources. The spec calls a string "non-empty" when it is present and has at
  least one character, so \<open>EMPTY_STR\<close> holds of \<open>NULL\<close> and of the empty string.
\<close>

definition EMPTY_STR :: "cstring \<Rightarrow> bool" where
  "EMPTY_STR str = (case str of None \<Rightarrow> True | Some s \<Rightarrow> s = [])"

text \<open>
  Conversion to \<open>int\<close> (32 bits, two's complement), as in the assignment
  \<open>i_length = time_played\<close> of a 64-bit tick count and in the cast \<open>(int) queue.size\<close>.
\<close>

definition to_int :: "int \<Rightarrow> int" where
  "to_int t = (t + 2 ^ 31) mod 2 ^ 32 - 2 ^ 31"

text \<open>The structure after \<open>calloc\<close> or \<open>memset (.., 0, ..)\<close>: null pointers and zeros.\<close>

definition zero_listen :: listen_t where
  "zero_listen =
     \<lparr>psz_artist = None, psz_title = None, psz_album = None, psz_track_number = None,
      psz_musicbrainz_recording_id = None, i_length = 0, date = 0\<rparr>"

subsection \<open>DeleteSong, DeleteSongQueue\<close>

definition DeleteSong :: "listen_t \<Rightarrow> listen_t" where
  "DeleteSong p_song =
     p_song\<lparr>psz_artist := None, psz_album := None, psz_title := None,
            psz_musicbrainz_recording_id := None, psz_track_number := None,
            i_length := 0, date := 0\<rparr>"

text \<open>
  \<open>DeleteSongQueue\<close> frees the strings of every element and then empties the vector
  (\<open>vlc_vector_clear\<close>): what is left is the empty queue.
\<close>

definition vlc_vector_clear :: "intf_sys_t \<Rightarrow> intf_sys_t" where
  "vlc_vector_clear p_sys = p_sys\<lparr>queue := []\<rparr>"

definition DeleteSongQueue :: "intf_sys_t \<Rightarrow> intf_sys_t" where
  "DeleteSongQueue p_sys = vlc_vector_clear (p_sys\<lparr>queue := map DeleteSong (queue p_sys)\<rparr>)"

subsection \<open>Enqueue\<close>

text \<open>
  \<open>vlc_vector_push\<close> appends at the end of the vector. It can fail only when the
  allocator does; the code ignores its result and the model takes the push to succeed.
  The \<open>goto error\<close> branches end in \<open>DeleteSong\<close> of the current song.
\<close>

definition Enqueue :: "intf_sys_t \<Rightarrow> intf_sys_t" where
  "Enqueue p_sys =
     (let s0 = p_sys\<lparr>b_meta_read := False\<rparr> in
      if date (p_current_song s0) = 0 then s0
      else if EMPTY_STR (psz_artist (p_current_song s0)) \<or>
              EMPTY_STR (psz_title (p_current_song s0))
        then s0\<lparr>p_current_song := DeleteSong (p_current_song s0)\<rparr>
      else
        let s1 = (if i_length (p_current_song s0) = 0
                  then s0\<lparr>p_current_song :=
                              (p_current_song s0)\<lparr>i_length := to_int (time_played s0)\<rparr>\<rparr>
                  else s0)
        in if time_played s1 < 30
           then s1\<lparr>p_current_song := DeleteSong (p_current_song s1)\<rparr>
           else s1\<lparr>queue := queue s1 @ [p_current_song s1], p_current_song := zero_listen\<rparr>)"

text \<open>The record that \<open>Enqueue\<close> pushes: the current song, its unknown duration filled in.\<close>

definition queued_listen :: "intf_sys_t \<Rightarrow> listen_t" where
  "queued_listen p_sys =
     (if i_length (p_current_song p_sys) = 0
      then (p_current_song p_sys)\<lparr>i_length := to_int (time_played p_sys)\<rparr>
      else p_current_song p_sys)"

subsection \<open>ReadMetaData\<close>

text \<open>
  What the code reads from an \<open>input_item_t\<close>: the six metadata strings (each accessor
  returns a fresh copy or \<open>NULL\<close>), the duration in ticks and the preparsed flag.
\<close>

record input_item_t =
  AlbumArtist :: cstring
  Artist :: cstring
  Title :: cstring
  Album :: cstring
  TrackID :: cstring
  TrackNum :: cstring
  Duration :: int
  IsPreparsed :: bool

text \<open>
  Modelled from the spec: the tick macros come from vlc_tick.h, which is not among the
  sources. The spec counts listened time and the backoff in seconds; a tick is a
  microsecond, \<open>VLC_TICK_0\<close> is the first valid tick, and the conversions multiply and
  divide by \<open>CLOCK_FREQ\<close> (C division, which truncates towards zero).
\<close>

definition CLOCK_FREQ :: int where
  "CLOCK_FREQ = 1000000"

definition VLC_TICK_0 :: int where
  "VLC_TICK_0 = 1"

definition SEC_FROM_VLC_TICK :: "int \<Rightarrow> int" where
  "SEC_FROM_VLC_TICK vtk = vtk sdiv CLOCK_FREQ"

definition VLC_TICK_FROM_SEC :: "int \<Rightarrow> int" where
  "VLC_TICK_FROM_SEC sec = CLOCK_FREQ * sec"

text \<open>
  The macro \<open>RETRIEVE_METADATA (a, b)\<close>: when the item's string \<open>psz_data\<close> is present and
  not empty, \<open>a\<close> is replaced by \<open>vlc_uri_decode (vlc_uri_encode (psz_data))\<close>; otherwise
  \<open>a\<close> keeps its value. The two URI functions live in vlc_url.h and are arguments of the
  model: \<open>enc\<close> takes a string and may return \<open>NULL\<close>, \<open>dec\<close> takes and returns a pointer.
\<close>

definition RETRIEVE_METADATA ::
  "(string \<Rightarrow> cstring) \<Rightarrow> (cstring \<Rightarrow> cstring) \<Rightarrow> cstring \<Rightarrow> cstring \<Rightarrow> cstring" where
  "RETRIEVE_METADATA enc dec a psz_data =
     (case psz_data of
        None \<Rightarrow> a
      | Some d \<Rightarrow> if d \<noteq> [] then dec (enc d) else a)"

text \<open>
  \<open>ReadMetaData\<close>: \<open>now\<close> is what \<open>time\<close> stores in \<open>date\<close>. The part after the artist has
  been found is \<open>ReadMetaData_title\<close> (lines 156 to 168).
\<close>

definition ReadMetaData_title ::
  "(string \<Rightarrow> cstring) \<Rightarrow> (cstring \<Rightarrow> cstring) \<Rightarrow> input_item_t \<Rightarrow> listen_t \<Rightarrow> listen_t" where
  "ReadMetaData_title enc dec item song =
     (let song = song\<lparr>psz_title := RETRIEVE_METADATA enc dec (psz_title song) (Title item)\<rparr> in
      if psz_title song = None then DeleteSong song
      else
        let song = song\<lparr>psz_album := RETRIEVE_METADATA enc dec (psz_album song) (Album item)\<rparr>;
            song = song\<lparr>psz_musicbrainz_recording_id :=
                     RETRIEVE_METADATA enc dec (psz_musicbrainz_recording_id song) (TrackID item)\<rparr>;
            song = song\<lparr>psz_track_number :=
                     RETRIEVE_METADATA enc dec (psz_track_number song) (TrackNum item)\<rparr>
        in song\<lparr>i_length := to_int (SEC_FROM_VLC_TICK (Duration item))\<rparr>)"

definition ReadMetaData ::
  "(string \<Rightarrow> cstring) \<Rightarrow> (cstring \<Rightarrow> cstring) \<Rightarrow> int \<Rightarrow> intf_sys_t \<Rightarrow>
   input_item_t option \<Rightarrow> intf_sys_t" where
  "ReadMetaData enc dec now p_sys item_opt =
     (case item_opt of
        None \<Rightarrow> p_sys
      | Some item \<Rightarrow>
          let p_sys = p_sys\<lparr>b_meta_read := True\<rparr>;
              song = (p_current_song p_sys)\<lparr>date := now\<rparr>;
              song = song\<lparr>psz_artist := RETRIEVE_METADATA enc dec (psz_artist song) (AlbumArtist item)\<rparr>
          in if psz_artist song = None
             then
               let song = song\<lparr>psz_artist := RETRIEVE_METADATA enc dec (psz_artist song) (Artist item)\<rparr>
               in if psz_artist song = None
                  then p_sys\<lparr>p_current_song := DeleteSong song\<rparr>
                  else p_sys\<lparr>p_current_song := ReadMetaData_title enc dec item song\<rparr>
             else p_sys\<lparr>p_current_song := ReadMetaData_title enc dec item song\<rparr>)"

subsection \<open>The player's callbacks\<close>

text \<open>
  Modelled from the spec: \<open>enum vlc_player_state\<close> is declared in vlc_player.h, which is
  not among the sources. The spec speaks of a state that "indicates now playing" and of
  the state "stopped"; the enumerators are listed in their declared order, and
  \<open>state_num\<close> is the integer the comparison \<open>state >= VLC_PLAYER_STATE_PLAYING\<close> reads.
\<close>

datatype vlc_player_state =
    VLC_PLAYER_STATE_STOPPED
  | VLC_PLAYER_STATE_STARTED
  | VLC_PLAYER_STATE_PLAYING
  | VLC_PLAYER_STATE_PAUSED
  | VLC_PLAYER_STATE_STOPPING

fun state_num :: "vlc_player_state \<Rightarrow> int" where
  "state_num VLC_PLAYER_STATE_STOPPED = 0"
| "state_num VLC_PLAYER_STATE_STARTED = 1"
| "state_num VLC_PLAYER_STATE_PLAYING = 2"
| "state_num VLC_PLAYER_STATE_PAUSED = 3"
| "state_num VLC_PLAYER_STATE_STOPPING = 4"

text \<open>
  What a callback reads from the player when it runs: the clock, the number of video
  tracks (\<open>vlc_player_GetVideoTrackCount\<close>) and the current media
  (\<open>vlc_player_GetCurrentMedia\<close>).
\<close>

record player_t =
  clock :: int
  VideoTrackCount :: nat
  CurrentMedia :: "input_item_t option"

definition PlayerStateChanged ::
  "(string \<Rightarrow> cstring) \<Rightarrow> (cstring \<Rightarrow> cstring) \<Rightarrow> player_t \<Rightarrow> vlc_player_state \<Rightarrow>
   intf_sys_t \<Rightarrow> intf_sys_t" where
  "PlayerStateChanged enc dec player state p_sys =
     (if VideoTrackCount player \<noteq> 0 then p_sys
      else if \<not> b_meta_read p_sys \<and> state_num state \<ge> state_num VLC_PLAYER_STATE_PLAYING
        then ReadMetaData enc dec (clock player) p_sys (CurrentMedia player)
      else if state = VLC_PLAYER_STATE_STOPPED then Enqueue p_sys
      else p_sys)"

definition OnTimerUpdate :: "int \<Rightarrow> intf_sys_t \<Rightarrow> intf_sys_t" where
  "OnTimerUpdate ts p_sys = p_sys\<lparr>time_played := SEC_FROM_VLC_TICK (ts - VLC_TICK_0)\<rparr>"

definition OnCurrentMediaChanged ::
  "(string \<Rightarrow> cstring) \<Rightarrow> (cstring \<Rightarrow> cstring) \<Rightarrow> player_t \<Rightarrow> input_item_t option \<Rightarrow>
   intf_sys_t \<Rightarrow> intf_sys_t" where
  "OnCurrentMediaChanged enc dec player new_media p_sys =
     (let p_sys = Enqueue p_sys;
          p_sys = p_sys\<lparr>b_meta_read := False\<rparr>
      in case new_media of
           None \<Rightarrow> p_sys
         | Some item \<Rightarrow>
             if VideoTrackCount player \<noteq> 0 then p_sys
             else
               let p_sys = p_sys\<lparr>time_played := 0\<rparr>
               in if IsPreparsed item then ReadMetaData enc dec (clock player) p_sys new_media
                  else p_sys)"

text \<open>The critical section of \<open>Close\<close> (lines 490 to 493): the worker is told to stop.\<close>

definition Close_locked :: "intf_sys_t \<Rightarrow> intf_sys_t" where
  "Close_locked p_sys = p_sys\<lparr>live := False\<rparr>"

subsection \<open>PreparePayload, PrepareRequest\<close>

text \<open>
  A \<open>vlc_memstream\<close> is the text written so far and an error flag. Writing appends to the
  text; \<open>vlc_memstream_close\<close> hands the text over unless the flag is set. Only a failed
  allocation sets the flag, and the model has none, but the branch stays in the
  functions as the code has it. A call of \<open>vlc_memstream_printf\<close> is a
  \<open>vlc_memstream_puts\<close> of the formatted text.
\<close>

record vlc_memstream =
  ms_ptr :: string
  ms_error :: bool

definition vlc_memstream_open :: vlc_memstream where
  "vlc_memstream_open = \<lparr>ms_ptr = [], ms_error = False\<rparr>"

definition vlc_memstream_puts :: "vlc_memstream \<Rightarrow> string \<Rightarrow> vlc_memstream" where
  "vlc_memstream_puts ms str = (if ms_error ms then ms else ms\<lparr>ms_ptr := ms_ptr ms @ str\<rparr>)"

definition vlc_memstream_close :: "vlc_memstream \<Rightarrow> cstring" where
  "vlc_memstream_close ms = (if ms_error ms then None else Some (ms_ptr ms))"

text \<open>
  The conversions of \<open>printf\<close>: \<open>%s\<close> (a null pointer is undefined in C; the C library
  prints \<open>(null)\<close>), and the unsigned decimals \<open>%zu\<close> and \<open>PRIu64\<close>, the latter applied to
  \<open>(uint64_t) date\<close>.
\<close>

definition fmt_s :: "cstring \<Rightarrow> string" where
  "fmt_s str = (case str of None \<Rightarrow> ''(null)'' | Some s \<Rightarrow> s)"

definition digit_char :: "nat \<Rightarrow> char" where
  "digit_char d =
     (if d = 0 then CHR ''0'' else if d = 1 then CHR ''1'' else if d = 2 then CHR ''2''
      else if d = 3 then CHR ''3'' else if d = 4 then CHR ''4'' else if d = 5 then CHR ''5''
      else if d = 6 then CHR ''6'' else if d = 7 then CHR ''7'' else if d = 8 then CHR ''8''
      else CHR ''9'')"

fun fmt_zu :: "nat \<Rightarrow> string" where
  "fmt_zu n = (if n < 10 then [digit_char n] else fmt_zu (n div 10) @ [digit_char (n mod 10)])"

declare fmt_zu.simps [simp del]

definition to_uint64 :: "int \<Rightarrow> nat" where
  "to_uint64 v = nat (v mod 2 ^ 64)"

definition fmt_u64 :: "int \<Rightarrow> string" where
  "fmt_u64 v = fmt_zu (to_uint64 v)"

text \<open>The body of the loop over the queue (lines 277 to 288), for one song.\<close>

definition PreparePayload_song :: "listen_t \<Rightarrow> vlc_memstream \<Rightarrow> vlc_memstream" where
  \<open>PreparePayload_song p_song payload =
     (let payload = vlc_memstream_puts payload (''{"listened_at": '' @ fmt_u64 (date p_song));
          payload = vlc_memstream_puts payload
                      ('', "track_metadata": {"artist_name": "'' @ fmt_s (psz_artist p_song) @ ''", '');
          payload = vlc_memstream_puts payload
                      ('' "track_name": "'' @ fmt_s (psz_title p_song) @ ''", '');
          payload = (if \<not> EMPTY_STR (psz_album p_song)
                     then vlc_memstream_puts payload
                            ('' "release_name": "'' @ fmt_s (psz_album p_song) @ ''"'')
                     else payload);
          payload = (if \<not> EMPTY_STR (psz_musicbrainz_recording_id p_song)
                     then vlc_memstream_puts payload
                            ('', "additional_info": {"recording_mbid":"'' @
                             fmt_s (psz_musicbrainz_recording_id p_song) @ ''"} '')
                     else payload)
      in vlc_memstream_puts payload ''}}'')\<close>

text \<open>
  The loop \<open>for (i_song = 0; i_song < (int) queue.size; i_song++)\<close>. The bound is the size
  converted to \<open>int\<close>; \<open>i_song\<close> starts at zero and only grows.
\<close>

function PreparePayload_loop :: "listen_t list \<Rightarrow> int \<Rightarrow> vlc_memstream \<Rightarrow> vlc_memstream" where
  "PreparePayload_loop data i_song payload =
     (if 0 \<le> i_song \<and> i_song < to_int (int (length data))
      then PreparePayload_loop data (i_song + 1) (PreparePayload_song (data ! nat i_song) payload)
      else payload)"
  by pat_completeness auto
termination
  by (relation "measure (\<lambda>(data, i_song, payload). nat (to_int (int (length data)) - i_song))") auto

declare PreparePayload_loop.simps [simp del]

definition PreparePayload :: "intf_sys_t \<Rightarrow> cstring" where
  \<open>PreparePayload p_sys =
     (let payload = vlc_memstream_open;
          payload = (if length (queue p_sys) = 1
                     then vlc_memstream_puts payload ''{"listen_type":"single","payload":[''
                     else vlc_memstream_puts payload ''{"listen_type":"import","payload":['');
          payload = PreparePayload_loop (queue p_sys) 0 payload;
          payload = vlc_memstream_puts payload '']}''
      in vlc_memstream_close payload)\<close>

text \<open>
  \<open>PrepareRequest\<close>. \<open>agent\<close> is the text of \<open>PACKAGE "/" VERSION\<close>, which config.h
  defines; \<open>CRLF\<close> is \<open>\r\n\<close>.
\<close>

definition CRLF :: string where
  "CRLF = [CHR 0x0D, CHR 0x0A]"

definition PrepareRequest :: "string \<Rightarrow> intf_sys_t \<Rightarrow> string \<Rightarrow> cstring" where
  "PrepareRequest agent p_sys payload =
     (let request = vlc_memstream_open;
          request = vlc_memstream_puts request
                      (''POST '' @ fmt_s (psz_path (p_submit_url p_sys)) @ '' HTTP/1.1'' @ CRLF);
          request = vlc_memstream_puts request
                      (''Host: '' @ fmt_s (psz_host (p_submit_url p_sys)) @ CRLF);
          request = vlc_memstream_puts request
                      (''Authorization: Token '' @ fmt_s (psz_user_token p_sys) @ CRLF);
          request = vlc_memstream_puts request (''User-Agent: '' @ agent @ CRLF);
          request = vlc_memstream_puts request (''Connection: close'' @ CRLF);
          request = vlc_memstream_puts request (''Accept-Encoding: identity'' @ CRLF);
          request = vlc_memstream_puts request
                      (''Content-Length: '' @ fmt_zu (length payload) @ CRLF);
          request = vlc_memstream_puts request CRLF;
          request = vlc_memstream_puts request payload;
          request = vlc_memstream_puts request (CRLF @ CRLF)
      in vlc_memstream_close request)"

text \<open>The text that one pass of the loop writes for a song, on a fresh stream.\<close>

definition payload_element :: "listen_t \<Rightarrow> string" where
  "payload_element p_song = ms_ptr (PreparePayload_song p_song vlc_memstream_open)"

subsection \<open>SendRequest\<close>

text \<open>
  Modelled from the spec: \<open>VLC_SUCCESS\<close> and \<open>VLC_EGENERIC\<close> are macros of vlc_common.h,
  which is not among the sources. The spec knows two results of a submission, success
  and failure; \<open>Run\<close> only compares with \<open>VLC_SUCCESS\<close>.
\<close>

datatype vlc_status = VLC_SUCCESS | VLC_EGENERIC

text \<open>
  What the TLS layer does during one call of \<open>SendRequest\<close>: whether
  \<open>vlc_tls_SocketOpenTLS\<close> returns a socket, what \<open>vlc_tls_Write\<close> and \<open>vlc_tls_Read\<close>
  return, and the bytes that \<open>vlc_tls_Read\<close> stores in \<open>p_buffer\<close>.
\<close>

record tls_t =
  sock_open :: bool
  write_ret :: int
  read_ret :: int
  read_data :: string

text \<open>
  The C string that starts at a buffer: its bytes up to the first NUL. \<open>strchr\<close> and
  \<open>strstr\<close> return the offset of the first match, or \<open>None\<close> for the null pointer.
\<close>

definition c_str :: "string \<Rightarrow> string" where
  "c_str buffer = takeWhile (\<lambda>c. c \<noteq> CHR 0x00) buffer"

definition strchr :: "string \<Rightarrow> char \<Rightarrow> nat option" where
  "strchr s c = (if c \<in> set s then Some (length (takeWhile (\<lambda>x. x \<noteq> c) s)) else None)"

fun strstr :: "string \<Rightarrow> string \<Rightarrow> nat option" where
  "strstr [] needle = (if needle = [] then Some 0 else None)"
| "strstr (c # haystack) needle =
     (if prefix needle (c # haystack) then Some 0
      else map_option Suc (strstr haystack needle))"

text \<open>
  The only way out of \<open>SendRequest\<close> that is not a return: line 365 writes through the
  pointer that \<open>strchr\<close> returned, which is null when the response has no newline.
\<close>

datatype fault = Null_dereference

definition SendRequest :: "tls_t \<Rightarrow> string \<Rightarrow> fault + vlc_status" where
  "SendRequest tls request =
     (if \<not> sock_open tls then Inr VLC_EGENERIC
      else if write_ret tls = - 1 then Inr VLC_EGENERIC
      else
        let i_ret = read_ret tls in
        if i_ret \<le> 0 then Inr VLC_EGENERIC
        else
          let p_buffer = take (nat i_ret) (read_data tls) @ [CHR 0x00] in
          case strchr (c_str p_buffer) (CHR 0x0A) of
            None \<Rightarrow> Inl Null_dereference
          | Some status \<Rightarrow>
              let p_buffer = p_buffer[status := CHR 0x00] in
              if strstr (c_str p_buffer) ''200'' \<noteq> None then Inr VLC_SUCCESS
              else Inr VLC_EGENERIC)"

text \<open>The status line of a response: its bytes before the first newline.\<close>

definition status_line :: "string \<Rightarrow> string" where
  "status_line response = takeWhile (\<lambda>c. c \<noteq> CHR 0x0A) response"

subsection \<open>The worker thread\<close>

text \<open>
  The worker gives up the mutex at three places: in \<open>vlc_cond_timedwait\<close> (line 532), in
  \<open>vlc_cond_wait\<close> (line 536), and from line 542 to line 560 while the request is built
  and sent. What the other threads do to \<open>p_sys\<close> in the meantime is a list of
  callbacks; \<open>Close_request\<close> is the critical section of \<open>Close\<close>.
\<close>

datatype callback =
    State_changed player_t vlc_player_state
  | Current_media_changed player_t "input_item_t option"
  | Timer_update int
  | Close_request

fun run_callback ::
  "(string \<Rightarrow> cstring) \<Rightarrow> (cstring \<Rightarrow> cstring) \<Rightarrow> callback \<Rightarrow> intf_sys_t \<Rightarrow> intf_sys_t" where
  "run_callback enc dec (State_changed player state) p_sys =
     PlayerStateChanged enc dec player state p_sys"
| "run_callback enc dec (Current_media_changed player new_media) p_sys =
     OnCurrentMediaChanged enc dec player new_media p_sys"
| "run_callback enc dec (Timer_update ts) p_sys = OnTimerUpdate ts p_sys"
| "run_callback enc dec Close_request p_sys = Close_locked p_sys"

definition run_callbacks ::
  "(string \<Rightarrow> cstring) \<Rightarrow> (cstring \<Rightarrow> cstring) \<Rightarrow> callback list \<Rightarrow> intf_sys_t \<Rightarrow> intf_sys_t" where
  "run_callbacks enc dec cbs p_sys = fold (run_callback enc dec) cbs p_sys"

text \<open>
  One stretch of time in which the worker does not hold the mutex: the callbacks that
  run, the tick count when the worker holds the mutex again, and what the TLS layer
  does if the worker sends a request in this stretch. The schedule of a run is the list
  of these stretches; the worker's own steps between two of them take no time.
\<close>

record window =
  w_others :: "callback list"
  w_time :: int
  w_tls :: tls_t

text \<open>
  Modelled from the spec: \<open>vlc_cond_timedwait\<close> belongs to the threads API of the VLC core
  (vlc_threads.h), which is not among the sources. The spec has the wait end when the
  deadline is reached or the condition is signalled; the function returns 0 when the
  thread was woken before the deadline and the error code \<open>ETIMEDOUT\<close> once the deadline is
  reached. \<open>now\<close> is the tick count at the moment the thread wakes.
\<close>

definition ETIMEDOUT :: int where
  "ETIMEDOUT = 110"

definition vlc_cond_timedwait :: "int \<Rightarrow> int \<Rightarrow> int" where
  "vlc_cond_timedwait deadline now = (if deadline \<le> now then ETIMEDOUT else 0)"

text \<open>
  A wait loop either comes back with the mutex held (the state, the tick count and the
  rest of the schedule), or is still waiting when the schedule ends.
\<close>

datatype wait_result = Blocked intf_sys_t | Resumed intf_sys_t int "window list"

text \<open>The loop \<open>while (p_sys->live && ret == 0) ret = vlc_cond_timedwait (..)\<close>, lines 531 and 532.\<close>

fun backoff_wait ::
  "(string \<Rightarrow> cstring) \<Rightarrow> (cstring \<Rightarrow> cstring) \<Rightarrow> int \<Rightarrow> int \<Rightarrow> int \<Rightarrow> intf_sys_t \<Rightarrow>
   window list \<Rightarrow> wait_result" where
  "backoff_wait enc dec deadline ret now p_sys [] =
     (if live p_sys \<and> ret = 0 then Blocked p_sys else Resumed p_sys now [])"
| "backoff_wait enc dec deadline ret now p_sys (w # ws) =
     (if live p_sys \<and> ret = 0
      then backoff_wait enc dec deadline (vlc_cond_timedwait deadline (w_time w)) (w_time w)
             (run_callbacks enc dec (w_others w) p_sys) ws
      else Resumed p_sys now (w # ws))"

text \<open>The loop \<open>while (p_sys->live && p_sys->queue.size == 0) vlc_cond_wait (..)\<close>, lines 535 and 536.\<close>

fun work_wait ::
  "(string \<Rightarrow> cstring) \<Rightarrow> (cstring \<Rightarrow> cstring) \<Rightarrow> int \<Rightarrow> intf_sys_t \<Rightarrow> window list \<Rightarrow>
   wait_result" where
  "work_wait enc dec now p_sys [] =
     (if live p_sys \<and> length (queue p_sys) = 0 then Blocked p_sys else Resumed p_sys now [])"
| "work_wait enc dec now p_sys (w # ws) =
     (if live p_sys \<and> length (queue p_sys) = 0
      then work_wait enc dec (w_time w) (run_callbacks enc dec (w_others w) p_sys) ws
      else Resumed p_sys now (w # ws))"

text \<open>
  Lines 541 to 571, one submission: the payload is built under the mutex, the request is
  built and sent without it, and the result is handled under the mutex again. The
  thread returns when the payload or the request cannot be built; otherwise the loop
  goes on with the new \<open>b_wait\<close> and the new state.
\<close>

datatype submit_result =
    Thread_returned
  | Faulted fault string
  | Continue bool intf_sys_t string

definition Run_submit ::
  "(string \<Rightarrow> cstring) \<Rightarrow> (cstring \<Rightarrow> cstring) \<Rightarrow> string \<Rightarrow> intf_sys_t \<Rightarrow> window \<Rightarrow>
   submit_result" where
  "Run_submit enc dec agent p_sys w =
     (case PreparePayload p_sys of
        None \<Rightarrow> Thread_returned
      | Some payload \<Rightarrow>
          (case PrepareRequest agent p_sys payload of
             None \<Rightarrow> Thread_returned
           | Some request \<Rightarrow>
               let p_sys = run_callbacks enc dec (w_others w) p_sys in
               (case SendRequest (w_tls w) request of
                  Inl f \<Rightarrow> Faulted f request
                | Inr ret \<Rightarrow>
                    if ret = VLC_SUCCESS then Continue False (DeleteSongQueue p_sys) request
                    else Continue True p_sys request)))"

text \<open>
  How a run of the worker ends: it left the loop because \<open>live\<close> is false, it returned
  from the middle of the loop, it wrote through the null pointer, or the schedule ended
  with the worker still running. \<open>sent\<close> lists the requests handed to \<open>SendRequest\<close>.
\<close>

datatype run_result =
    Stopped intf_sys_t "string list"
  | Gave_up intf_sys_t "string list"
  | Crashed fault "string list"
  | Running intf_sys_t "string list"

text \<open>A wait loop hands back no more of the schedule than it was given.\<close>

lemma backoff_wait_length:
  "backoff_wait enc dec deadline ret now p_sys ws = Resumed p_sys' now' ws' \<Longrightarrow>
   length ws' \<le> length ws"
  by (induction ws arbitrary: ret now p_sys) (fastforce split: if_splits)+

lemma work_wait_length:
  "work_wait enc dec now p_sys ws = Resumed p_sys' now' ws' \<Longrightarrow> length ws' \<le> length ws"
  by (induction ws arbitrary: now p_sys) (fastforce split: if_splits)+

text \<open>
  The loop of \<open>Run\<close>, lines 525 to 572. The tick count read by \<open>vlc_tick_now\<close> at line 529 is
  the one at which the worker last took the mutex. Every pass that goes on takes at
  least one stretch of the schedule, which is why the recursion ends.
\<close>

function Run_loop ::
  "(string \<Rightarrow> cstring) \<Rightarrow> (cstring \<Rightarrow> cstring) \<Rightarrow> string \<Rightarrow> bool \<Rightarrow> int \<Rightarrow> intf_sys_t \<Rightarrow>
   string list \<Rightarrow> window list \<Rightarrow> run_result" where
  "Run_loop enc dec agent b_wait now p_sys sent ws =
     (case (if b_wait
            then backoff_wait enc dec (now + VLC_TICK_FROM_SEC 60) 0 now p_sys ws
            else Resumed p_sys now ws) of
        Blocked p_sys \<Rightarrow> Running p_sys sent
      | Resumed p_sys now ws \<Rightarrow>
          (case work_wait enc dec now p_sys ws of
             Blocked p_sys \<Rightarrow> Running p_sys sent
           | Resumed p_sys now ws \<Rightarrow>
               if \<not> live p_sys then Stopped p_sys sent
               else
                 (case ws of
                    [] \<Rightarrow> Running p_sys sent
                  | w # ws \<Rightarrow>
                      (case Run_submit enc dec agent p_sys w of
                         Thread_returned \<Rightarrow> Gave_up p_sys sent
                       | Faulted f request \<Rightarrow> Crashed f (sent @ [request])
                       | Continue b_wait p_sys request \<Rightarrow>
                           Run_loop enc dec agent b_wait (w_time w) p_sys (sent @ [request]) ws))))"
  by pat_completeness auto
termination
  by (relation "measure (\<lambda>(enc, dec, agent, b_wait, now, p_sys, sent, ws). length ws)")
    (auto split: if_splits dest!: backoff_wait_length work_wait_length)

declare Run_loop.simps [simp del]

text \<open>\<open>Run\<close> enters the loop with \<open>b_wait\<close> false and nothing sent.\<close>

definition Run ::
  "(string \<Rightarrow> cstring) \<Rightarrow> (cstring \<Rightarrow> cstring) \<Rightarrow> string \<Rightarrow> int \<Rightarrow> intf_sys_t \<Rightarrow>
   window list \<Rightarrow> run_result" where
  "Run enc dec agent now p_sys ws = Run_loop enc dec agent False now p_sys [] ws"

subsection \<open>JSON texts\<close>

text \<open>
  The payload is meant to be a JSON text. \<open>json_valid\<close> is a recogniser for the grammar
  of RFC 8259, one byte at a time: a mode and the stack of the arrays and objects that
  are still open. It accepts any byte from 0x20 on inside a string, so it does not
  check UTF-8. It is not part of the plugin.
\<close>

datatype json_ctx = In_array | In_object

datatype json_mode =
    Want_value
  | Want_value_or_close
  | Want_key_or_close
  | Want_key
  | Want_colon
  | After_value
  | In_string bool
  | In_escape bool
  | In_hex bool nat
  | In_literal string
  | Num_minus
  | Num_zero
  | Num_int
  | Num_dot
  | Num_frac
  | Num_e
  | Num_esign
  | Num_exp
  | Reject

definition is_ws :: "char \<Rightarrow> bool" where
  "is_ws c = (c = CHR '' '' \<or> c = CHR 0x09 \<or> c = CHR 0x0A \<or> c = CHR 0x0D)"

definition is_digit :: "char \<Rightarrow> bool" where
  "is_digit c = (c \<in> set ''0123456789'')"

definition is_hex :: "char \<Rightarrow> bool" where
  "is_hex c = (c \<in> set ''0123456789abcdefABCDEF'')"

definition is_control :: "char \<Rightarrow> bool" where
  "is_control c = ((of_char c :: nat) < 32)"

definition begin_value :: "char \<Rightarrow> json_ctx list \<Rightarrow> json_mode \<times> json_ctx list" where
  "begin_value c st =
     (if c = CHR ''{'' then (Want_key_or_close, In_object # st)
      else if c = CHR ''['' then (Want_value_or_close, In_array # st)
      else if c = CHR 0x22 then (In_string False, st)
      else if c = CHR ''-'' then (Num_minus, st)
      else if c = CHR ''0'' then (Num_zero, st)
      else if is_digit c then (Num_int, st)
      else if c = CHR ''t'' then (In_literal ''rue'', st)
      else if c = CHR ''f'' then (In_literal ''alse'', st)
      else if c = CHR ''n'' then (In_literal ''ull'', st)
      else (Reject, st))"

definition after_value :: "char \<Rightarrow> json_ctx list \<Rightarrow> json_mode \<times> json_ctx list" where
  "after_value c st =
     (if is_ws c then (After_value, st)
      else if c = CHR '','' then
        (case st of
           [] \<Rightarrow> (Reject, st)
         | In_array # _ \<Rightarrow> (Want_value, st)
         | In_object # _ \<Rightarrow> (Want_key, st))
      else if c = CHR '']'' then
        (case st of In_array # st' \<Rightarrow> (After_value, st') | _ \<Rightarrow> (Reject, st))
      else if c = CHR ''}'' then
        (case st of In_object # st' \<Rightarrow> (After_value, st') | _ \<Rightarrow> (Reject, st))
      else (Reject, st))"

fun json_step :: "json_mode \<times> json_ctx list \<Rightarrow> char \<Rightarrow> json_mode \<times> json_ctx list" where
  "json_step (Want_value, st) c = (if is_ws c then (Want_value, st) else begin_value c st)"
| "json_step (Want_value_or_close, st) c =
     (if is_ws c then (Want_value_or_close, st)
      else if c = CHR '']'' then after_value c st
      else begin_value c st)"
| "json_step (Want_key_or_close, st) c =
     (if is_ws c then (Want_key_or_close, st)
      else if c = CHR ''}'' then after_value c st
      else if c = CHR 0x22 then (In_string True, st)
      else (Reject, st))"
| "json_step (Want_key, st) c =
     (if is_ws c then (Want_key, st)
      else if c = CHR 0x22 then (In_string True, st)
      else (Reject, st))"
| "json_step (Want_colon, st) c =
     (if is_ws c then (Want_colon, st)
      else if c = CHR '':'' then (Want_value, st)
      else (Reject, st))"
| "json_step (After_value, st) c = after_value c st"
| "json_step (In_string key, st) c =
     (if c = CHR 0x22 then (if key then (Want_colon, st) else (After_value, st))
      else if c = CHR 0x5C then (In_escape key, st)
      else if is_control c then (Reject, st)
      else (In_string key, st))"
| "json_step (In_escape key, st) c =
     (if c \<in> set [CHR 0x22, CHR 0x5C, CHR ''/'', CHR ''b'', CHR ''f'', CHR ''n'', CHR ''r'', CHR ''t'']
      then (In_string key, st)
      else if c = CHR ''u'' then (In_hex key 4, st)
      else (Reject, st))"
| "json_step (In_hex key n, st) c =
     (if is_hex c then (if n \<le> 1 then (In_string key, st) else (In_hex key (n - 1), st))
      else (Reject, st))"
| "json_step (In_literal rest, st) c =
     (case rest of
        [] \<Rightarrow> after_value c st
      | x # xs \<Rightarrow> if c = x then (In_literal xs, st) else (Reject, st))"
| "json_step (Num_minus, st) c =
     (if c = CHR ''0'' then (Num_zero, st)
      else if is_digit c then (Num_int, st)
      else (Reject, st))"
| "json_step (Num_zero, st) c =
     (if c = CHR ''.'' then (Num_dot, st)
      else if c = CHR ''e'' \<or> c = CHR ''E'' then (Num_e, st)
      else after_value c st)"
| "json_step (Num_int, st) c =
     (if is_digit c then (Num_int, st)
      else if c = CHR ''.'' then (Num_dot, st)
      else if c = CHR ''e'' \<or> c = CHR ''E'' then (Num_e, st)
      else after_value c st)"
| "json_step (Num_dot, st) c = (if is_digit c then (Num_frac, st) else (Reject, st))"
| "json_step (Num_frac, st) c =
     (if is_digit c then (Num_frac, st)
      else if c = CHR ''e'' \<or> c = CHR ''E'' then (Num_e, st)
      else after_value c st)"
| "json_step (Num_e, st) c =
     (if c = CHR ''+'' \<or> c = CHR ''-'' then (Num_esign, st)
      else if is_digit c then (Num_exp, st)
      else (Reject, st))"
| "json_step (Num_esign, st) c = (if is_digit c then (Num_exp, st) else (Reject, st))"
| "json_step (Num_exp, st) c = (if is_digit c then (Num_exp, st) else after_value c st)"
| "json_step (Reject, st) c = (Reject, st)"

definition json_run :: "string \<Rightarrow> json_mode \<times> json_ctx list" where
  "json_run text = foldl json_step (Want_value, []) text"

definition json_accepting :: "json_mode \<times> json_ctx list \<Rightarrow> bool" where
  "json_accepting ms =
     (snd ms = [] \<and>
      fst ms \<in> {After_value, In_literal [], Num_zero, Num_int, Num_frac, Num_exp})"

definition json_valid :: "string \<Rightarrow> bool" where
  "json_valid text = json_accepting (json_run text)"

text \<open>
  The spec's "usable" string of a media item, for comparison with what \<open>ReadMetaData\<close>
  stores: the item's string after the encode/decode round trip, and nothing when the
  item has no such string, has the empty one, or the round trip fails.
\<close>

definition usable :: "(string \<Rightarrow> cstring) \<Rightarrow> (cstring \<Rightarrow> cstring) \<Rightarrow> cstring \<Rightarrow> cstring" where
  "usable enc dec psz_data =
     (case psz_data of None \<Rightarrow> None | Some d \<Rightarrow> if d = [] then None else dec (enc d))"

text \<open>
  The zero timestamp is the code's mark of a current listen that was never populated
  ("Song not yet initialized"). \<open>sentinel_ok\<close> says that the mark and the flag can be
  trusted: a current listen with a zero timestamp, or with the flag clear, is empty.
\<close>

definition sentinel_ok :: "intf_sys_t \<Rightarrow> bool" where
  "sentinel_ok s =
     (if date (p_current_song s) = 0 \<or> \<not> b_meta_read s
      then p_current_song s = zero_listen else True)"

subsection \<open>Sample data\<close>

definition sys0 :: intf_sys_t where
  "sys0 =
     \<lparr>queue = [], live = True,
      p_submit_url = \<lparr>psz_host = Some ''api.listenbrainz.org'', psz_path = Some ''/1/submit-listens''\<rparr>,
      psz_user_token = Some ''token'', p_current_song = zero_listen, b_meta_read = False,
      time_played = 0\<rparr>"

definition listen_XY :: listen_t where
  "listen_XY = zero_listen\<lparr>psz_artist := Some ''X'', psz_title := Some ''Y'', date := 1605\<rparr>"


definition item_XY :: input_item_t where
  "item_XY =
     \<lparr>AlbumArtist = None, Artist = Some ''X'', Title = Some ''Y'', Album = Some [],
      TrackID = None, TrackNum = Some ''7'', Duration = 200000000, IsPreparsed = True\<rparr>"

definition player_XY :: "int \<Rightarrow> player_t" where
  "player_XY now = \<lparr>clock = now, VideoTrackCount = 0, CurrentMedia = Some item_XY\<rparr>"


text \<open>A connection on which everything works and the server answers \<open>response\<close>.\<close>

definition tls_reply :: "string \<Rightarrow> tls_t" where
  "tls_reply response =
     \<lparr>sock_open = True, write_ret = 1, read_ret = int (length response), read_data = response\<rparr>"

definition reply_200 :: string where
  "reply_200 = ''HTTP/1.1 200 OK'' @ CRLF"

definition reply_401 :: string where
  "reply_401 = ''HTTP/1.1 401 Unauthorized'' @ CRLF"

definition sys_queued :: intf_sys_t where
  "sys_queued = sys0\<lparr>queue := [listen_XY], p_current_song := listen_XY, time_played := 45\<rparr>"

definition sys_pushed :: intf_sys_t where
  "sys_pushed = sys0\<lparr>queue := [listen_XY, listen_XY\<lparr>i_length := 45\<rparr>], time_played := 45\<rparr>"

definition w_stopped :: "int \<Rightarrow> string \<Rightarrow> window" where
  "w_stopped now response =
     \<lparr>w_others = [State_changed (player_XY 1700) VLC_PLAYER_STATE_STOPPED], w_time = now,
      w_tls = tls_reply response\<rparr>"


definition w_close :: "int \<Rightarrow> window" where
  "w_close now = \<lparr>w_others = [Close_request], w_time = now, w_tls = tls_reply reply_200\<rparr>"

section \<open>Properties\<close>

lemma DeleteSong_zero: "DeleteSong p_song = zero_listen"
  by (simp add: DeleteSong_def zero_listen_def)

lemma DeleteSongQueue_queue: "queue (DeleteSongQueue p_sys) = []"
  by (simp add: DeleteSongQueue_def vlc_vector_clear_def)

subsection \<open>Enqueue\<close>

lemma Enqueue_not_initialized:
  "date (p_current_song s) = 0 \<Longrightarrow> Enqueue s = s\<lparr>b_meta_read := False\<rparr>"
  by (simp add: Enqueue_def)

lemma Enqueue_queue_cases:
  "queue (Enqueue s) = queue s \<or>
   queue (Enqueue s) = queue s @ [queued_listen s] \<and>
   \<not> EMPTY_STR (psz_artist (queued_listen s)) \<and> \<not> EMPTY_STR (psz_title (queued_listen s))"
  by (simp add: Enqueue_def queued_listen_def Let_def)

lemma Enqueue_live: "live (Enqueue s) = live s"
  by (simp add: Enqueue_def Let_def)




subsection \<open>ReadMetaData\<close>

lemma RETRIEVE_METADATA_usable: "RETRIEVE_METADATA enc dec None x = usable enc dec x"
  by (simp add: RETRIEVE_METADATA_def usable_def split: option.splits)

text \<open>
  C7. On an empty current listen (its state at start-up and after every \<open>Enqueue\<close>, see
  \<open>ReadMetaData_called_on_empty\<close> below), \<open>ReadMetaData\<close> with a media item takes the artist
  from the album artist and falls back to the track artist. When neither is usable, or
  the title is not, the current listen is empty again when \<open>ReadMetaData\<close> returns.
  Otherwise every string it stores is the round trip \<open>dec (enc d)\<close> of the item's
  string \<open>d\<close>, and the timestamp is the clock's.
\<close>

theorem ReadMetaData_populates:
  assumes "p_current_song s = zero_listen"
  shows "p_current_song (ReadMetaData enc dec now s (Some item)) =
     (if (usable enc dec (AlbumArtist item) = None \<and> usable enc dec (Artist item) = None) \<or>
         usable enc dec (Title item) = None
      then zero_listen
      else \<lparr>psz_artist = (if usable enc dec (AlbumArtist item) \<noteq> None
                           then usable enc dec (AlbumArtist item)
                           else usable enc dec (Artist item)),
            psz_title = usable enc dec (Title item),
            psz_album = usable enc dec (Album item),
            psz_track_number = usable enc dec (TrackNum item),
            psz_musicbrainz_recording_id = usable enc dec (TrackID item),
            i_length = to_int (SEC_FROM_VLC_TICK (Duration item)),
            date = now\<rparr>)"
  using assms
  by (simp add: ReadMetaData_def ReadMetaData_title_def Let_def DeleteSong_zero
      RETRIEVE_METADATA_usable zero_listen_def)

theorem ReadMetaData_populates_witness:
  "p_current_song sys0 = zero_listen \<and>
   p_current_song (ReadMetaData Some (\<lambda>p. p) 1605 sys0 (Some item_XY)) =
     \<lparr>psz_artist = Some ''X'', psz_title = Some ''Y'', psz_album = None,
      psz_track_number = Some ''7'', psz_musicbrainz_recording_id = None,
      i_length = 200, date = 1605\<rparr> \<and>
   p_current_song (ReadMetaData Some (\<lambda>p. p) 1605 sys0 (Some (item_XY\<lparr>Artist := Some []\<rparr>))) =
     zero_listen"
proof -
  have empty: "p_current_song sys0 = zero_listen"
    by (simp add: sys0_def)
  show ?thesis
    using empty ReadMetaData_populates [OF empty, of Some "\<lambda>p. p" 1605 item_XY]
      ReadMetaData_populates [OF empty, of Some "\<lambda>p. p" 1605 "item_XY\<lparr>Artist := Some []\<rparr>"]
    by (simp add: usable_def item_XY_def to_int_def SEC_FROM_VLC_TICK_def CLOCK_FREQ_def
        signed_divide_int_def)
qed

subsection \<open>The metadata-read flag\<close>




subsection \<open>The sentinel invariant\<close>

text \<open>
  Every callback keeps \<open>sentinel_ok\<close> as long as the clock does not read zero, and a
  callback runs \<open>ReadMetaData\<close> only on an empty current listen.
\<close>

lemma sentinel_ok_calloc: "p_current_song s = zero_listen \<Longrightarrow> sentinel_ok s"
  by (simp add: sentinel_ok_def)

lemma Enqueue_empties: "sentinel_ok s \<Longrightarrow> p_current_song (Enqueue s) = zero_listen"
  by (simp add: sentinel_ok_def Enqueue_def Let_def DeleteSong_zero split: if_splits)

lemma Enqueue_flag: "b_meta_read (Enqueue s) = False"
  by (simp add: Enqueue_def Let_def)

lemma ReadMetaData_date:
  "p_current_song s = zero_listen \<Longrightarrow>
   p_current_song (ReadMetaData enc dec now s m) = zero_listen \<or>
   date (p_current_song (ReadMetaData enc dec now s m)) = now \<and> b_meta_read (ReadMetaData enc dec now s m)"
  by (cases m) (simp_all add: ReadMetaData_def ReadMetaData_title_def Let_def DeleteSong_zero zero_listen_def)

lemma sentinel_ok_ReadMetaData:
  assumes "p_current_song s = zero_listen" "now \<noteq> 0"
  shows "sentinel_ok (ReadMetaData enc dec now s m)"
  using ReadMetaData_date [OF assms(1), of enc dec now m] assms(2)
  by (auto simp add: sentinel_ok_def)

lemma sentinel_ok_PlayerStateChanged:
  assumes "sentinel_ok s" "clock player \<noteq> 0"
  shows "sentinel_ok (PlayerStateChanged enc dec player state s)"
proof -
  have "sentinel_ok (Enqueue s)"
    using Enqueue_empties [OF assms(1)] by (simp add: sentinel_ok_def)
  moreover have "\<not> b_meta_read s \<Longrightarrow>
      sentinel_ok (ReadMetaData enc dec (clock player) s (CurrentMedia player))"
    using assms by (intro sentinel_ok_ReadMetaData) (simp_all add: sentinel_ok_def)
  ultimately show ?thesis
    using assms(1) by (simp add: PlayerStateChanged_def)
qed

lemma sentinel_ok_OnTimerUpdate: "sentinel_ok s \<Longrightarrow> sentinel_ok (OnTimerUpdate ts s)"
  by (simp add: sentinel_ok_def OnTimerUpdate_def)

lemma sentinel_ok_OnCurrentMediaChanged:
  assumes "sentinel_ok s" "clock player \<noteq> 0"
  shows "sentinel_ok (OnCurrentMediaChanged enc dec player new_media s)"
proof -
  have e: "p_current_song (Enqueue s) = zero_listen"
    by (rule Enqueue_empties [OF assms(1)])
  have "sentinel_ok (ReadMetaData enc dec (clock player)
           (Enqueue s\<lparr>b_meta_read := False, time_played := 0\<rparr>) new_media)"
    using e assms(2) by (intro sentinel_ok_ReadMetaData) simp_all
  moreover have "sentinel_ok ((Enqueue s)\<lparr>b_meta_read := False\<rparr>)"
    and "sentinel_ok ((Enqueue s)\<lparr>b_meta_read := False, time_played := 0\<rparr>)"
    using e by (simp_all add: sentinel_ok_def)
  ultimately show ?thesis
    by (cases new_media) (simp_all add: OnCurrentMediaChanged_def Let_def)
qed

lemma ReadMetaData_called_on_empty:
  assumes "sentinel_ok s"
  shows "PlayerStateChanged enc dec player state s = s \<or>
         PlayerStateChanged enc dec player state s = Enqueue s \<or>
         p_current_song s = zero_listen \<and>
         PlayerStateChanged enc dec player state s =
           ReadMetaData enc dec (clock player) s (CurrentMedia player)"
    and "OnCurrentMediaChanged enc dec player new_media s = (Enqueue s)\<lparr>b_meta_read := False\<rparr> \<or>
         OnCurrentMediaChanged enc dec player new_media s =
           (Enqueue s)\<lparr>b_meta_read := False, time_played := 0\<rparr> \<or>
         p_current_song ((Enqueue s)\<lparr>b_meta_read := False, time_played := 0\<rparr>) = zero_listen \<and>
         OnCurrentMediaChanged enc dec player new_media s =
           ReadMetaData enc dec (clock player)
             ((Enqueue s)\<lparr>b_meta_read := False, time_played := 0\<rparr>) new_media"
  using assms Enqueue_empties [OF assms]
  by (simp_all add: PlayerStateChanged_def OnCurrentMediaChanged_def Let_def sentinel_ok_def
      split: option.splits)

subsection \<open>PreparePayload\<close>


lemma PreparePayload_song_text:
  \<open>\<not> ms_error ms \<Longrightarrow>
   PreparePayload_song r ms =
     ms\<lparr>ms_ptr := ms_ptr ms @
       ''{"listened_at": '' @ fmt_u64 (date r) @
       '', "track_metadata": {"artist_name": "'' @ fmt_s (psz_artist r) @ ''", '' @
       '' "track_name": "'' @ fmt_s (psz_title r) @ ''", '' @
       (if EMPTY_STR (psz_album r) then []
        else '' "release_name": "'' @ fmt_s (psz_album r) @ ''"'') @
       (if EMPTY_STR (psz_musicbrainz_recording_id r) then []
        else '', "additional_info": {"recording_mbid":"'' @
             fmt_s (psz_musicbrainz_recording_id r) @ ''"} '') @
       ''}}''\<rparr>\<close>
  by (simp add: PreparePayload_song_def vlc_memstream_puts_def Let_def)

lemma fmt_s_Some: "fmt_s (Some s) = s"
  by (simp add: fmt_s_def)

lemma PreparePayload_song_append:
  "\<not> ms_error ms \<Longrightarrow>
   PreparePayload_song r ms = ms\<lparr>ms_ptr := ms_ptr ms @ payload_element r\<rparr>"
  by (simp add: PreparePayload_song_text payload_element_def vlc_memstream_open_def)


lemma PreparePayload_loop_appends:
  "\<exists>more. PreparePayload_loop data i ms = ms\<lparr>ms_ptr := ms_ptr ms @ more\<rparr>"
proof (induction data i ms rule: PreparePayload_loop.induct)
  case (1 data i_song payload)
  show ?case
  proof (cases "0 \<le> i_song \<and> i_song < to_int (int (length data))")
    case True
    obtain more where t: "PreparePayload_loop data (i_song + 1)
        (PreparePayload_song (data ! nat i_song) payload) =
        (PreparePayload_song (data ! nat i_song) payload)
          \<lparr>ms_ptr := ms_ptr (PreparePayload_song (data ! nat i_song) payload) @ more\<rparr>"
      using "1.IH" [OF True] by blast
    show ?thesis
    proof (cases "ms_error payload")
      case False
      then have "PreparePayload_loop data i_song payload =
          payload\<lparr>ms_ptr := ms_ptr payload @ (payload_element (data ! nat i_song) @ more)\<rparr>"
        using True t
        by (subst PreparePayload_loop.simps) (simp add: PreparePayload_song_append)
      then show ?thesis
        by blast
    next
      case e: True
      then have "PreparePayload_song (data ! nat i_song) payload = payload"
        by (simp add: PreparePayload_song_def vlc_memstream_puts_def Let_def)
      then show ?thesis
        using True t by (subst PreparePayload_loop.simps) auto
    qed
  next
    case False
    then have "PreparePayload_loop data i_song payload = payload\<lparr>ms_ptr := ms_ptr payload @ []\<rparr>"
      by (subst PreparePayload_loop.simps) auto
    then show ?thesis
      by blast
  qed
qed



lemma PreparePayload_text:
  "\<exists>more. PreparePayload p_sys =
     Some ((if length (queue p_sys) = 1 then ''{\"listen_type\":\"single\",\"payload\":[''
            else ''{\"listen_type\":\"import\",\"payload\":['') @ more @ '']}'')"
proof -
  define head where "head =
     (if length (queue p_sys) = 1 then ''{\"listen_type\":\"single\",\"payload\":[''
      else ''{\"listen_type\":\"import\",\"payload\":['')"
  obtain more where "PreparePayload_loop (queue p_sys) 0 \<lparr>ms_ptr = head, ms_error = False\<rparr> =
      \<lparr>ms_ptr = head @ more, ms_error = False\<rparr>"
    using PreparePayload_loop_appends [of "queue p_sys" 0 "\<lparr>ms_ptr = head, ms_error = False\<rparr>"]
    by auto
  then have "PreparePayload p_sys = Some (head @ more @ '']}'')"
    unfolding head_def
    by (simp add: PreparePayload_def vlc_memstream_open_def vlc_memstream_puts_def
        vlc_memstream_close_def Let_def split: if_splits)
  then show ?thesis
    unfolding head_def by blast
qed

lemma PreparePayload_Some: "\<exists>payload. PreparePayload p_sys = Some payload"
  using PreparePayload_text [of p_sys] by blast

text \<open>
  C6. The payload starts with \<open>{"listen_type":"single",\<close> when the queue holds exactly one
  song, and with \<open>{"listen_type":"import",\<close> for every other size of the queue.
\<close>

theorem PreparePayload_listen_type:
  \<open>\<exists>rest. PreparePayload s =
      Some ((if length (queue s) = 1 then ''{"listen_type":"single",''
             else ''{"listen_type":"import",'') @ rest)\<close>
  using PreparePayload_text [of s] by auto

theorem PreparePayload_listen_type_witness:
  \<open>(\<exists>rest. PreparePayload (sys0\<lparr>queue := [listen_XY]\<rparr>) =
      Some (''{"listen_type":"single",'' @ rest)) \<and>
   (\<exists>rest. PreparePayload (sys0\<lparr>queue := []\<rparr>) = Some (''{"listen_type":"import",'' @ rest)) \<and>
   (\<exists>rest. PreparePayload (sys0\<lparr>queue := [listen_XY, listen_XY]\<rparr>) =
      Some (''{"listen_type":"import",'' @ rest))\<close>
  using PreparePayload_listen_type [of "sys0\<lparr>queue := [listen_XY]\<rparr>"]
    PreparePayload_listen_type [of "sys0\<lparr>queue := []\<rparr>"]
    PreparePayload_listen_type [of "sys0\<lparr>queue := [listen_XY, listen_XY]\<rparr>"]
  by simp



text \<open>
  Apart from escaping, the commas are wrong: the text after \<open>track_name\<close> always ends in
  a comma, which nothing follows when the song has no album, and no comma is written
  between two elements. A single song with an album gives valid JSON.
\<close>

lemma PreparePayload_no_album_invalid:
  \<open>PreparePayload (sys0\<lparr>queue := [listen_XY]\<rparr>) =
     Some ''{"listen_type":"single","payload":[{"listened_at": 1605, "track_metadata": {"artist_name": "X",  "track_name": "Y", }}]}'' \<and>
   \<not> json_valid ''{"listen_type":"single","payload":[{"listened_at": 1605, "track_metadata": {"artist_name": "X",  "track_name": "Y", }}]}''\<close>
  by code_simp

lemma PreparePayload_two_songs_invalid:
  \<open>PreparePayload (sys0\<lparr>queue := [listen_XY\<lparr>psz_album := Some ''A''\<rparr>, listen_XY\<lparr>psz_album := Some ''B''\<rparr>]\<rparr>) =
     Some ''{"listen_type":"import","payload":[{"listened_at": 1605, "track_metadata": {"artist_name": "X",  "track_name": "Y",  "release_name": "A"}}{"listened_at": 1605, "track_metadata": {"artist_name": "X",  "track_name": "Y",  "release_name": "B"}}]}'' \<and>
   \<not> json_valid ''{"listen_type":"import","payload":[{"listened_at": 1605, "track_metadata": {"artist_name": "X",  "track_name": "Y",  "release_name": "A"}}{"listened_at": 1605, "track_metadata": {"artist_name": "X",  "track_name": "Y",  "release_name": "B"}}]}''\<close>
  by code_simp

lemma PreparePayload_one_song_valid:
  \<open>PreparePayload (sys0\<lparr>queue := [listen_XY\<lparr>psz_album := Some ''A''\<rparr>]\<rparr>) =
     Some ''{"listen_type":"single","payload":[{"listened_at": 1605, "track_metadata": {"artist_name": "X",  "track_name": "Y",  "release_name": "A"}}]}'' \<and>
   json_valid ''{"listen_type":"single","payload":[{"listened_at": 1605, "track_metadata": {"artist_name": "X",  "track_name": "Y",  "release_name": "A"}}]}''\<close>
  by code_simp

subsection \<open>SendRequest\<close>

lemma strstr_sublist: "strstr haystack needle \<noteq> None \<longleftrightarrow> sublist needle haystack"
  by (induction haystack) (auto simp add: sublist_Cons_right)

lemma strchr_None: "strchr s c = None \<longleftrightarrow> c \<notin> set s"
  by (simp add: strchr_def)

lemma SendRequest_transport_failure:
  "\<not> sock_open tls \<or> write_ret tls = - 1 \<or> read_ret tls \<le> 0 \<Longrightarrow>
   SendRequest tls request = Inr VLC_EGENERIC"
  by (auto simp add: SendRequest_def Let_def)

lemma takeWhile_upto: "c \<notin> set xs \<Longrightarrow> takeWhile (\<lambda>x. x \<noteq> c) (xs @ c # ys) = xs"
  by (induction xs) auto

lemma takeWhile_stop: "takeWhile (\<lambda>x. x \<noteq> c) (xs @ [c]) = takeWhile (\<lambda>x. x \<noteq> c) xs"
  by (induction xs) auto

lemma c_str_terminated: "c_str (bytes @ [CHR 0x00]) = c_str bytes"
  by (simp add: c_str_def takeWhile_stop)

lemma c_str_clean: "CHR 0x00 \<notin> set bytes \<Longrightarrow> c_str bytes = bytes"
  by (induction bytes) (auto simp add: c_str_def)

lemma c_str_cut:
  assumes "CHR 0x00 \<notin> set bytes" "CHR 0x0A \<in> set bytes"
  shows "c_str ((bytes @ [CHR 0x00])[length (takeWhile (\<lambda>x. x \<noteq> CHR 0x0A) bytes) := CHR 0x00]) =
         takeWhile (\<lambda>x. x \<noteq> CHR 0x0A) bytes"
proof -
  obtain pre post where s: "bytes = pre @ CHR 0x0A # post" "CHR 0x0A \<notin> set pre"
    using assms(2) by (meson split_list_first)
  then have "takeWhile (\<lambda>x. x \<noteq> CHR 0x0A) bytes = pre"
    by (simp add: takeWhile_upto)
  moreover have "CHR 0x00 \<notin> set pre"
    using assms(1) s by simp
  ultimately show ?thesis
    using s by (simp add: c_str_def list_update_append takeWhile_upto)
qed

text \<open>
  On a response that has a newline (and no NUL byte), \<open>SendRequest\<close> returns success
  exactly when the status line contains \<open>200\<close>, and failure otherwise; every transport
  failure gives the same failure.
\<close>

lemma SendRequest_status_line:
  assumes "sock_open tls" "write_ret tls \<noteq> - 1" "read_ret tls = int (length (read_data tls))"
    "read_data tls \<noteq> []" "CHR 0x00 \<notin> set (read_data tls)" "CHR 0x0A \<in> set (read_data tls)"
  shows "SendRequest tls request =
     Inr (if sublist ''200'' (status_line (read_data tls)) then VLC_SUCCESS else VLC_EGENERIC)"
proof -
  have "c_str (read_data tls @ [CHR 0x00]) = read_data tls"
    using assms(5) by (simp add: c_str_terminated c_str_clean)
  then show ?thesis
    using assms strstr_sublist [of "status_line (read_data tls)" "''200''"]
    by (simp add: SendRequest_def Let_def strchr_def c_str_cut status_line_def)
qed

lemma SendRequest_no_newline:
  assumes "sock_open tls" "write_ret tls \<noteq> - 1" "0 < read_ret tls"
    "CHR 0x0A \<notin> set (c_str (take (nat (read_ret tls)) (read_data tls)))"
  shows "SendRequest tls request = Inl Null_dereference"
  using assms by (simp add: SendRequest_def Let_def strchr_def c_str_terminated)

text \<open>
  C10. The response \<open>HTTP/1.1 401 Unauthorized\<close> without a newline: \<open>strchr\<close> returns the
  null pointer and line 365 writes through it.
\<close>

theorem SendRequest_null_status:
  "strchr (c_str (''HTTP/1.1 401 Unauthorized'' @ [CHR 0x00])) (CHR 0x0A) = None \<and>
   SendRequest (tls_reply ''HTTP/1.1 401 Unauthorized'') request = Inl Null_dereference"
  by (simp add: SendRequest_def tls_reply_def c_str_def strchr_def)

text \<open>
  C4. The response \<open>HTTP/1.1 200 OK\<close> without a newline is its own status line and contains
  \<open>200\<close>, but \<open>SendRequest\<close> does not return success on it: it does not return at all. With
  the newline, the same response is a success.
\<close>

theorem SendRequest_200_without_newline:
  "status_line ''HTTP/1.1 200 OK'' = ''HTTP/1.1 200 OK'' \<and>
   sublist ''200'' (status_line ''HTTP/1.1 200 OK'') \<and>
   SendRequest (tls_reply ''HTTP/1.1 200 OK'') request = Inl Null_dereference \<and>
   SendRequest (tls_reply (''HTTP/1.1 200 OK'' @ [CHR 0x0A])) request = Inr VLC_SUCCESS"
  by (simp add: SendRequest_def tls_reply_def c_str_def strchr_def status_line_def sublist_Cons_right)

subsection \<open>The worker thread\<close>

lemma vlc_memstream_open_ok: "\<not> ms_error vlc_memstream_open"
  by (simp add: vlc_memstream_open_def)

lemma vlc_memstream_puts_ok: "\<not> ms_error ms \<Longrightarrow> \<not> ms_error (vlc_memstream_puts ms str)"
  by (simp add: vlc_memstream_puts_def)

lemma vlc_memstream_close_ok: "\<not> ms_error ms \<Longrightarrow> \<exists>ptr. vlc_memstream_close ms = Some ptr"
  by (simp add: vlc_memstream_close_def)

lemma PrepareRequest_Some: "\<exists>request. PrepareRequest agent p_sys payload = Some request"
  unfolding PrepareRequest_def Let_def
  by (intro vlc_memstream_close_ok vlc_memstream_puts_ok vlc_memstream_open_ok)

lemma ReadMetaData_queue: "queue (ReadMetaData enc dec now p_sys item) = queue p_sys"
  by (cases item) (simp_all add: ReadMetaData_def Let_def)

lemma ReadMetaData_live: "live (ReadMetaData enc dec now p_sys item) = live p_sys"
  by (cases item) (simp_all add: ReadMetaData_def Let_def)

lemma Enqueue_prefix: "prefix (queue p_sys) (queue (Enqueue p_sys))"
  using Enqueue_queue_cases [of p_sys] by auto

lemma run_callback_prefix: "prefix (queue p_sys) (queue (run_callback enc dec cb p_sys))"
  by (cases cb)
    (auto simp add: PlayerStateChanged_def OnCurrentMediaChanged_def OnTimerUpdate_def
      Close_locked_def ReadMetaData_queue Enqueue_prefix Let_def split: option.splits)

lemma run_callbacks_prefix: "prefix (queue p_sys) (queue (run_callbacks enc dec cbs p_sys))"
  unfolding run_callbacks_def
proof (induction cbs arbitrary: p_sys)
  case Nil
  show ?case by simp
next
  case (Cons cb cbs)
  have "prefix (queue p_sys) (queue (run_callback enc dec cb p_sys))"
    by (rule run_callback_prefix)
  also have "prefix \<dots> (queue (fold (run_callback enc dec) cbs (run_callback enc dec cb p_sys)))"
    by (rule Cons.IH)
  finally show ?case by simp
qed

lemma run_callback_live:
  "live (run_callback enc dec cb p_sys) = (live p_sys \<and> cb \<noteq> Close_request)"
  by (cases cb)
    (auto simp add: PlayerStateChanged_def OnCurrentMediaChanged_def OnTimerUpdate_def
      Close_locked_def ReadMetaData_live Enqueue_live Let_def split: option.splits)

lemma run_callbacks_live:
  "live (run_callbacks enc dec cbs p_sys) = (live p_sys \<and> Close_request \<notin> set cbs)"
  unfolding run_callbacks_def
  by (induction cbs arbitrary: p_sys) (auto simp add: run_callback_live)

lemma backoff_wait_prefix:
  "backoff_wait enc dec deadline ret now p_sys ws = Resumed p_sys' now' ws' \<Longrightarrow>
   prefix (queue p_sys) (queue p_sys')"
proof (induction ws arbitrary: ret now p_sys)
  case Nil
  then show ?case by (auto split: if_splits)
next
  case (Cons w ws)
  show ?case
  proof (cases "live p_sys \<and> ret = 0")
    case True
    then have "backoff_wait enc dec deadline (vlc_cond_timedwait deadline (w_time w)) (w_time w)
        (run_callbacks enc dec (w_others w) p_sys) ws = Resumed p_sys' now' ws'"
      using Cons.prems by simp
    from Cons.IH [OF this] run_callbacks_prefix [of p_sys enc dec "w_others w"]
    show ?thesis
      by (rule prefix_order.trans [rotated])
  next
    case False
    then show ?thesis
      using Cons.prems by auto
  qed
qed

lemma work_wait_prefix:
  "work_wait enc dec now p_sys ws = Resumed p_sys' now' ws' \<Longrightarrow>
   prefix (queue p_sys) (queue p_sys')"
proof (induction ws arbitrary: now p_sys)
  case Nil
  then show ?case by (auto split: if_splits)
next
  case (Cons w ws)
  show ?case
  proof (cases "live p_sys \<and> length (queue p_sys) = 0")
    case True
    then have "work_wait enc dec (w_time w) (run_callbacks enc dec (w_others w) p_sys) ws =
        Resumed p_sys' now' ws'"
      using Cons.prems by simp
    from Cons.IH [OF this] run_callbacks_prefix [of p_sys enc dec "w_others w"]
    show ?thesis
      by (rule prefix_order.trans [rotated])
  next
    case False
    then show ?thesis
      using Cons.prems by auto
  qed
qed

lemma work_wait_exit:
  "work_wait enc dec now p_sys ws = Resumed p_sys' now' ws' \<Longrightarrow>
   \<not> live p_sys' \<or> queue p_sys' \<noteq> []"
  by (induction ws arbitrary: now p_sys) (fastforce split: if_splits)+

lemma Run_loop_submits:
  assumes "live p_sys" "queue p_sys \<noteq> []"
  shows "Run_loop enc dec agent False now p_sys sent (w # ws) =
     (case Run_submit enc dec agent p_sys w of
        Thread_returned \<Rightarrow> Gave_up p_sys sent
      | Faulted f request \<Rightarrow> Crashed f (sent @ [request])
      | Continue b_wait p_sys' request \<Rightarrow>
          Run_loop enc dec agent b_wait (w_time w) p_sys' (sent @ [request]) ws)"
  using assms by (subst Run_loop.simps) simp

text \<open>
  C2. One submission, started with a queue that is not empty (as it is whenever the
  loop gets there, \<open>work_wait_exit\<close>). The payload and the request are built. If
  \<open>SendRequest\<close> returns success, the loop goes on without backoff and with the empty
  queue; if it returns failure, the loop goes on with backoff, and the state, the queue
  in it, is exactly as the callbacks of the meantime left it, not empty. The callbacks
  only ever append to the queue, during a submission and during the backoff wait
  alike: the queue before is a prefix of the queue after.
\<close>

theorem Run_submit_queue:
  assumes "queue p_sys \<noteq> []"
  shows "\<exists>payload request.
     PreparePayload p_sys = Some payload \<and>
     PrepareRequest agent p_sys payload = Some request \<and>
     (SendRequest (w_tls w) request = Inr VLC_SUCCESS \<longrightarrow>
        Run_submit enc dec agent p_sys w =
          Continue False ((run_callbacks enc dec (w_others w) p_sys)\<lparr>queue := []\<rparr>) request) \<and>
     (SendRequest (w_tls w) request = Inr VLC_EGENERIC \<longrightarrow>
        Run_submit enc dec agent p_sys w =
          Continue True (run_callbacks enc dec (w_others w) p_sys) request) \<and>
     prefix (queue p_sys) (queue (run_callbacks enc dec (w_others w) p_sys)) \<and>
     queue (run_callbacks enc dec (w_others w) p_sys) \<noteq> [] \<and>
     (backoff_wait enc dec deadline ret now p_sys ws = Resumed p_sys' now' ws' \<longrightarrow>
        prefix (queue p_sys) (queue p_sys'))"
proof -
  obtain payload where p: "PreparePayload p_sys = Some payload"
    using PreparePayload_Some by blast
  obtain request where r: "PrepareRequest agent p_sys payload = Some request"
    using PrepareRequest_Some by blast
  have pre: "prefix (queue p_sys) (queue (run_callbacks enc dec (w_others w) p_sys))"
    by (rule run_callbacks_prefix)
  then have ne: "queue (run_callbacks enc dec (w_others w) p_sys) \<noteq> []"
    using assms by auto
  have "Run_submit enc dec agent p_sys w =
      (case SendRequest (w_tls w) request of
         Inl f \<Rightarrow> Faulted f request
       | Inr ret \<Rightarrow>
           if ret = VLC_SUCCESS
           then Continue False ((run_callbacks enc dec (w_others w) p_sys)\<lparr>queue := []\<rparr>) request
           else Continue True (run_callbacks enc dec (w_others w) p_sys) request)"
    using p r
    by (simp add: Run_submit_def Let_def DeleteSongQueue_def vlc_vector_clear_def
        split: sum.splits)
  then show ?thesis
    using p r pre ne backoff_wait_prefix [of enc dec deadline ret now p_sys ws p_sys' now' ws']
    by (intro exI [of _ payload] exI [of _ request]) simp
qed

lemma SendRequest_reply_200: "SendRequest (tls_reply reply_200) request = Inr VLC_SUCCESS"
  by (simp add: SendRequest_def tls_reply_def reply_200_def CRLF_def c_str_def strchr_def)

lemma SendRequest_reply_401: "SendRequest (tls_reply reply_401) request = Inr VLC_EGENERIC"
  by (simp add: SendRequest_def tls_reply_def reply_401_def CRLF_def c_str_def strchr_def)

lemma stopped_pushes:
  "run_callbacks Some (\<lambda>p. p) [State_changed (player_XY 1700) VLC_PLAYER_STATE_STOPPED]
     sys_queued = sys_pushed"
  by (simp add: run_callbacks_def PlayerStateChanged_def player_XY_def Enqueue_def
      sys_queued_def sys_pushed_def sys0_def listen_XY_def zero_listen_def EMPTY_STR_def
      to_int_def Let_def)

theorem Run_submit_queue_witness:
  "queue sys_queued \<noteq> [] \<and>
   (\<exists>request. Run_submit Some (\<lambda>p. p) ''vlc/4.0'' sys_queued (w_stopped 7 reply_401) =
      Continue True sys_pushed request) \<and>
   (\<exists>request. Run_submit Some (\<lambda>p. p) ''vlc/4.0'' sys_queued (w_stopped 7 reply_200) =
      Continue False (sys_pushed\<lparr>queue := []\<rparr>) request) \<and>
   prefix (queue sys_queued) (queue sys_pushed)"
proof -
  have ne: "queue sys_queued \<noteq> []"
    by (simp add: sys_queued_def)
  have "\<exists>request. Run_submit Some (\<lambda>p. p) ''vlc/4.0'' sys_queued (w_stopped 7 reply_401) =
      Continue True sys_pushed request"
    using Run_submit_queue [OF ne, where agent = "''vlc/4.0''" and w = "w_stopped 7 reply_401"
        and enc = Some and dec = "\<lambda>p. p" and deadline = 0 and ret = 0 and now = 0
        and ws = "[]" and p_sys' = sys_queued and now' = 0 and ws' = "[]"]
      SendRequest_reply_401
    by (auto simp add: stopped_pushes w_stopped_def)
  moreover have "\<exists>request. Run_submit Some (\<lambda>p. p) ''vlc/4.0'' sys_queued (w_stopped 7 reply_200) =
      Continue False (sys_pushed\<lparr>queue := []\<rparr>) request"
    using Run_submit_queue [OF ne, where agent = "''vlc/4.0''" and w = "w_stopped 7 reply_200"
        and enc = Some and dec = "\<lambda>p. p" and deadline = 0 and ret = 0 and now = 0
        and ws = "[]" and p_sys' = sys_queued and now' = 0 and ws' = "[]"]
      SendRequest_reply_200
    by (auto simp add: stopped_pushes w_stopped_def)
  moreover have "prefix (queue sys_queued) (queue sys_pushed)"
    using Run_submit_queue [OF ne, where agent = "''vlc/4.0''" and w = "w_stopped 7 reply_200"
        and enc = Some and dec = "\<lambda>p. p" and deadline = 0 and ret = 0 and now = 0
        and ws = "[]" and p_sys' = sys_queued and now' = 0 and ws' = "[]"]
    by (auto simp add: stopped_pushes w_stopped_def)
  ultimately show ?thesis
    using ne by blast
qed




text \<open>
  C8. The worker holds \<open>live\<close> and is blocked, and \<open>Close\<close> runs before it wakes. From the
  backoff wait (any deadline) and from the wait for work (empty queue) it comes back at
  once, and the loop, whether it was at the backoff wait or at the wait for work, ends
  at \<open>break\<close> with \<open>live\<close> false and without a request added to those already sent.
\<close>

theorem Run_loop_shutdown:
  assumes "live p_sys" "Close_request \<in> set (w_others w)"
  shows "backoff_wait enc dec deadline 0 now p_sys (w # ws) =
           Resumed (run_callbacks enc dec (w_others w) p_sys) (w_time w) ws \<and>
         work_wait enc dec now (p_sys\<lparr>queue := []\<rparr>) (w # ws) =
           Resumed (run_callbacks enc dec (w_others w) (p_sys\<lparr>queue := []\<rparr>)) (w_time w) ws \<and>
         Run_loop enc dec agent True now p_sys sent (w # ws) =
           Stopped (run_callbacks enc dec (w_others w) p_sys) sent \<and>
         Run_loop enc dec agent False now (p_sys\<lparr>queue := []\<rparr>) sent (w # ws) =
           Stopped (run_callbacks enc dec (w_others w) (p_sys\<lparr>queue := []\<rparr>)) sent"
proof -
  have dead: "\<not> live (run_callbacks enc dec (w_others w) s)" for s
    using assms(2) by (simp add: run_callbacks_live)
  have stop1: "backoff_wait enc dec d r t (run_callbacks enc dec (w_others w) s) ws =
      Resumed (run_callbacks enc dec (w_others w) s) t ws" for d r t s
    using dead [of s] by (cases ws) simp_all
  have stop2: "work_wait enc dec t (run_callbacks enc dec (w_others w) s) ws =
      Resumed (run_callbacks enc dec (w_others w) s) t ws" for t s
    using dead [of s] by (cases ws) simp_all
  have a: "backoff_wait enc dec d 0 now p_sys (w # ws) =
      Resumed (run_callbacks enc dec (w_others w) p_sys) (w_time w) ws" for d
    using assms(1) by (simp add: stop1)
  have b: "work_wait enc dec now (p_sys\<lparr>queue := []\<rparr>) (w # ws) =
      Resumed (run_callbacks enc dec (w_others w) (p_sys\<lparr>queue := []\<rparr>)) (w_time w) ws"
    using assms(1) by (simp add: stop2)
  have c: "Run_loop enc dec agent True now p_sys sent (w # ws) =
      Stopped (run_callbacks enc dec (w_others w) p_sys) sent"
    by (subst Run_loop.simps) (simp only: a stop2 dead if_True wait_result.case if_P not_False_eq_True)
  have d: "Run_loop enc dec agent False now (p_sys\<lparr>queue := []\<rparr>) sent (w # ws) =
      Stopped (run_callbacks enc dec (w_others w) (p_sys\<lparr>queue := []\<rparr>)) sent"
    by (subst Run_loop.simps) (simp only: b dead if_False wait_result.case if_P not_False_eq_True)
  show ?thesis
    using a b c d by blast
qed

theorem Run_loop_shutdown_witness:
  "live sys_queued \<and> Close_request \<in> set (w_others (w_close 5000000)) \<and>
   Run_loop Some (\<lambda>p. p) ''vlc/4.0'' True 0 sys_queued [] [w_close 5000000] =
     Stopped (sys_queued\<lparr>live := False\<rparr>) [] \<and>
   Run_loop Some (\<lambda>p. p) ''vlc/4.0'' False 0 (sys_queued\<lparr>queue := []\<rparr>) [] [w_close 5000000] =
     Stopped (sys_queued\<lparr>queue := [], live := False\<rparr>) []"
proof -
  have alive: "live sys_queued"
    by (simp add: sys_queued_def sys0_def)
  have asked: "Close_request \<in> set (w_others (w_close 5000000))"
    by (simp add: w_close_def)
  have "run_callbacks Some (\<lambda>p. p) (w_others (w_close 5000000)) s = s\<lparr>live := False\<rparr>" for s
    by (simp add: run_callbacks_def w_close_def Close_locked_def)
  then show ?thesis
    using alive asked
      Run_loop_shutdown [OF alive asked, of Some "\<lambda>p. p" 0 0 "[]" "''vlc/4.0''" "[]"]
    by simp
qed

end
